theory Spec2Isabelle
  imports Complex_Main
begin

section \<open>Python and Qt values used by \<^verbatim>\<open>qtrangeslider/_style.py\<close>\<close>

text \<open>
  Strings are lists of characters; a character is read as a code point below 256.
  Numbers (\<^verbatim>\<open>int\<close> and \<^verbatim>\<open>float\<close> alike, as \<^verbatim>\<open>4 == 4.0\<close> in Python) are the
  rationals they denote; \<^verbatim>\<open>None\<close> in a numeric field is \<open>None\<close>.
\<close>

datatype error = AttributeError | TypeError | ValueError

subsection \<open>Character classes of \<^verbatim>\<open>re\<close> and \<^verbatim>\<open>str\<close>\<close>

text \<open>\<^verbatim>\<open>\s\<close>: the code points below 256 for which \<^verbatim>\<open>str.isspace\<close> holds.\<close>

definition is_space :: "char \<Rightarrow> bool" where
  "is_space c = (c \<in> set [CHR 0x09, CHR 0x0A, CHR 0x0B, CHR 0x0C, CHR 0x0D,
                           CHR 0x1C, CHR 0x1D, CHR 0x1E, CHR 0x1F, CHR 0x20,
                           CHR 0x85, CHR 0xA0])"

text \<open>\<^verbatim>\<open>\d\<close>: below code point 256 the decimal digits are \<^verbatim>\<open>0\<close> to \<^verbatim>\<open>9\<close>.\<close>

definition is_digit :: "char \<Rightarrow> bool" where
  "is_digit c = (c \<in> set ''0123456789'')"

text \<open>The line boundaries of \<^verbatim>\<open>str.splitlines\<close> below code point 256.\<close>

definition is_linebreak :: "char \<Rightarrow> bool" where
  "is_linebreak c = (c \<in> set [CHR 0x0A, CHR 0x0B, CHR 0x0C, CHR 0x0D,
                               CHR 0x1C, CHR 0x1D, CHR 0x1E, CHR 0x85])"

subsection \<open>Regular expressions: a backtracking matcher\<close>

text \<open>
  The patterns of the module repeat single characters of a class only, so the syntax has
  \<open>Star\<close> and \<open>Plus\<close> on classes. Every quantifier is greedy and gives characters back
  on failure, as in Python's \<^verbatim>\<open>re\<close>; the first successful path is the match.
  Group \<open>n\<close> records the text it consumed.
\<close>

datatype regex =
    Eps
  | Chr "char \<Rightarrow> bool"
  | Seq regex regex
  | Opt regex
  | Star "char \<Rightarrow> bool"
  | Plus "char \<Rightarrow> bool"
  | Grp nat regex

type_synonym caps = "nat \<Rightarrow> string option"

fun star_cls :: "(char \<Rightarrow> bool) \<Rightarrow> string \<Rightarrow> (string \<Rightarrow> 'a option) \<Rightarrow> 'a option" where
  "star_cls p [] k = k []"
| "star_cls p (c # cs) k =
     (if p c then (case star_cls p cs k of Some r \<Rightarrow> Some r | None \<Rightarrow> k (c # cs))
      else k (c # cs))"

fun rmatch :: "regex \<Rightarrow> string \<Rightarrow> caps \<Rightarrow> (string \<Rightarrow> caps \<Rightarrow> 'a option) \<Rightarrow> 'a option" where
  "rmatch Eps s g k = k s g"
| "rmatch (Chr p) s g k = (case s of [] \<Rightarrow> None | c # cs \<Rightarrow> if p c then k cs g else None)"
| "rmatch (Seq a b) s g k = rmatch a s g (\<lambda>s' g'. rmatch b s' g' k)"
| "rmatch (Opt r) s g k = (case rmatch r s g k of Some x \<Rightarrow> Some x | None \<Rightarrow> k s g)"
| "rmatch (Star p) s g k = star_cls p s (\<lambda>s'. k s' g)"
| "rmatch (Plus p) s g k =
     (case s of [] \<Rightarrow> None | c # cs \<Rightarrow> if p c then star_cls p cs (\<lambda>s'. k s' g) else None)"
| "rmatch (Grp n r) s g k =
     rmatch r s g (\<lambda>s' g'. k s' (g'(n := Some (take (length s - length s') s))))"

text \<open>\<^verbatim>\<open>pattern.match(s)\<close>: a match anchored at the start; \<open>None\<close> is Python's \<^verbatim>\<open>None\<close>.\<close>

definition re_match :: "regex \<Rightarrow> string \<Rightarrow> caps option" where
  "re_match r s = rmatch r s (\<lambda>_. None) (\<lambda>_ g. Some g)"

text \<open>\<^verbatim>\<open>re.search(pattern, s)\<close>: the match at the leftmost position that has one.\<close>

fun re_search :: "regex \<Rightarrow> string \<Rightarrow> caps option" where
  "re_search r [] = re_match r []"
| "re_search r (c # cs) =
     (case re_match r (c # cs) of Some g \<Rightarrow> Some g | None \<Rightarrow> re_search r cs)"

primrec lit :: "string \<Rightarrow> regex" where
  "lit [] = Eps"
| "lit (c # cs) = Seq (Chr (\<lambda>x. x = c)) (lit cs)"

primrec seqs :: "regex list \<Rightarrow> regex" where
  "seqs [] = Eps"
| "seqs (r # rs) = Seq r (seqs rs)"

subsection \<open>Numbers read from text\<close>

definition digit_val :: "char \<Rightarrow> nat" where
  "digit_val c = of_char c - 48"

definition dec_val :: "string \<Rightarrow> nat" where
  "dec_val s = foldl (\<lambda>a c. 10 * a + digit_val c) 0 s"

text \<open>
  The white space that \<^verbatim>\<open>int\<close> skips at both ends of its argument: the ASCII white
  space and, of the code points from 127 on, those that are Unicode white space. The
  separators \<^verbatim>\<open>0x1C\<close> to \<^verbatim>\<open>0x1F\<close> are white space for \<^verbatim>\<open>str.isspace\<close> but not for
  \<^verbatim>\<open>int\<close>.
\<close>

definition is_int_space :: "char \<Rightarrow> bool" where
  "is_int_space c = (c \<in> set [CHR 0x09, CHR 0x0A, CHR 0x0B, CHR 0x0C, CHR 0x0D, CHR 0x20,
                               CHR 0x85, CHR 0xA0])"

definition int_strip :: "string \<Rightarrow> string" where
  "int_strip s = rev (dropWhile is_int_space (rev (dropWhile is_int_space s)))"

text \<open>
  The default of \<^verbatim>\<open>sys.int_max_str_digits\<close>: \<^verbatim>\<open>int\<close> rejects a text with more digits
  (leading zeros count, underscores and the sign do not).
\<close>

definition int_max_str_digits :: nat where
  "int_max_str_digits = 4300"

text \<open>
  The digits of an integer literal after its first digit: digits, with single
  underscores allowed between two digits.
\<close>

fun int_digits :: "string \<Rightarrow> nat \<Rightarrow> nat option" where
  "int_digits [] acc = Some acc"
| "int_digits (c # cs) acc =
     (if is_digit c then int_digits cs (10 * acc + digit_val c)
      else if c = CHR ''_'' then
        (case cs of
           [] \<Rightarrow> None
         | d # ds \<Rightarrow> if is_digit d then int_digits ds (10 * acc + digit_val d) else None)
      else None)"

definition py_nat :: "string \<Rightarrow> nat option" where
  "py_nat s =
     (case s of
        [] \<Rightarrow> None
      | c # cs \<Rightarrow>
          if is_digit c \<and> length (filter is_digit s) \<le> int_max_str_digits
          then int_digits cs (digit_val c)
          else None)"

text \<open>
  \<^verbatim>\<open>int(s)\<close> in base 10: white space at both ends, an optional sign, then digits
  with single underscores between them, at most \<open>int_max_str_digits\<close> digits; \<open>None\<close>
  stands for the \<^verbatim>\<open>ValueError\<close> of any other text.
\<close>

definition py_int :: "string \<Rightarrow> int option" where
  "py_int s =
     (case int_strip s of
        [] \<Rightarrow> None
      | c # cs \<Rightarrow>
          if c = CHR ''-'' then map_option (\<lambda>n. - int n) (py_nat cs)
          else if c = CHR ''+'' then map_option int (py_nat cs)
          else map_option int (py_nat (c # cs)))"

text \<open>
  \<^verbatim>\<open>float(s)\<close> on the plain decimal literals that the patterns of this module capture
  (\<^verbatim>\<open>\d+\<close> and \<^verbatim>\<open>\d*\.?\d+\<close>): the rational the literal denotes, which the double
  returned by Python rounds; \<open>None\<close> stands for \<^verbatim>\<open>ValueError\<close>.
\<close>

definition py_float :: "string \<Rightarrow> rat option" where
  "py_float s =
     (let ip = takeWhile is_digit s; r = dropWhile is_digit s in
      case r of
        [] \<Rightarrow> if ip = [] then None else Some (of_nat (dec_val ip))
      | c # fp \<Rightarrow>
          if c = CHR ''.'' \<and> list_all is_digit fp \<and> \<not> (ip = [] \<and> fp = [])
          then Some (of_nat (dec_val ip) + of_nat (dec_val fp) / 10 ^ length fp)
          else None)"

subsection \<open>Qt values\<close>

text \<open>
  A \<^verbatim>\<open>QColor\<close> is kept as the text it was constructed from, with the opacity given
  to it by \<^verbatim>\<open>setAlphaF\<close> (if any). A gradient keeps its coordinates and colour stops.
\<close>

datatype qcolor = QColor string "rat option"

datatype qgradient =
    QLinearGradient rat rat rat rat "(rat \<times> qcolor) list"
  | QRadialGradient rat rat rat rat rat "(rat \<times> qcolor) list"

datatype pyval = PyNone | PyStr string | PyColor qcolor | PyGrad qgradient

fun set_stop :: "rat \<Rightarrow> qcolor \<Rightarrow> (rat \<times> qcolor) list \<Rightarrow> (rat \<times> qcolor) list" where
  "set_stop pos c [] = [(pos, c)]"
| "set_stop pos c ((p, d) # r) =
     (if p < pos then (p, d) # set_stop pos c r
      else if p = pos then (pos, c) # r
      else (pos, c) # (p, d) # r)"

fun setColorAt :: "rat \<Rightarrow> qcolor \<Rightarrow> qgradient \<Rightarrow> qgradient" where
  "setColorAt pos c (QLinearGradient x1 y1 x2 y2 stops) =
     QLinearGradient x1 y1 x2 y2 (set_stop pos c stops)"
| "setColorAt pos c (QRadialGradient cx cy radius fx fy stops) =
     QRadialGradient cx cy radius fx fy (set_stop pos c stops)"

text \<open>
  \<^verbatim>\<open>val.setAlphaF(a)\<close>: only a \<^verbatim>\<open>QColor\<close> has the method (a gradient, a string and
  \<^verbatim>\<open>None\<close> have no such attribute), and its argument must be a number. Qt clamps the
  opacity to the unit interval.
\<close>

fun setAlphaF :: "pyval \<Rightarrow> rat option \<Rightarrow> error + pyval" where
  "setAlphaF (PyColor (QColor n a)) (Some x) = Inr (PyColor (QColor n (Some (max 0 (min x 1)))))"
| "setAlphaF (PyColor (QColor n a)) None = Inl TypeError"
| "setAlphaF v x = Inl AttributeError"

datatype ColorGroup = Active | Disabled | Inactive

datatype Orientation = Horizontal | Vertical

datatype TickPosition = NoTicks | TicksAbove | TicksBelow | TicksBothSides

text \<open>The integer values of \<^verbatim>\<open>QSlider.TickPosition\<close>.\<close>

fun tick_value :: "TickPosition \<Rightarrow> nat" where
  "tick_value NoTicks = 0"
| "tick_value TicksAbove = 1"
| "tick_value TicksBelow = 2"
| "tick_value TicksBothSides = 3"

section \<open>The style record and its accessors\<close>

record RangeSliderStyle =
  brush_active :: pyval
  brush_inactive :: pyval
  brush_disabled :: pyval
  pen_active :: pyval
  pen_inactive :: pyval
  pen_disabled :: pyval
  vertical_thickness :: "rat option"
  horizontal_thickness :: "rat option"
  tick_offset :: "rat option"
  tick_bar_alpha :: "rat option"
  v_offset :: "rat option"
  h_offset :: "rat option"
  has_stylesheet :: bool

text \<open>\<^verbatim>\<open>RangeSliderStyle()\<close>: every field at its default.\<close>

definition unset_style :: RangeSliderStyle where
  "unset_style = \<lparr>brush_active = PyNone, brush_inactive = PyNone, brush_disabled = PyNone,
     pen_active = PyNone, pen_inactive = PyNone, pen_disabled = PyNone,
     vertical_thickness = None, horizontal_thickness = None, tick_offset = None,
     tick_bar_alpha = None, v_offset = None, h_offset = None, has_stylesheet = False\<rparr>"

text \<open>Truthiness, and \<^verbatim>\<open>x or y\<close> on values and on numeric fields.\<close>

fun truthy :: "pyval \<Rightarrow> bool" where
  "truthy PyNone = False"
| "truthy (PyStr s) = (s \<noteq> [])"
| "truthy (PyColor c) = True"
| "truthy (PyGrad g) = True"

definition py_or :: "pyval \<Rightarrow> pyval \<Rightarrow> pyval" where
  "py_or x y = (if truthy x then x else y)"

definition num_or :: "rat option \<Rightarrow> rat option \<Rightarrow> rat option" where
  "num_or x y = (case x of None \<Rightarrow> y | Some v \<Rightarrow> if v \<noteq> 0 then x else y)"

text \<open>
  The accessors read the module's \<^verbatim>\<open>SYSTEM_STYLE\<close>, here the first argument. The
  paint option gives the colour group, the orientation and the tick position.
  \<^verbatim>\<open>setAlphaF\<close> changes the colour object it is called on; \<open>brush\<close> returns the changed
  value, and the style record is not read again afterwards. The accessor \<^verbatim>\<open>pen\<close> is
  not part of this development.
\<close>

definition brush ::
  "RangeSliderStyle \<Rightarrow> RangeSliderStyle \<Rightarrow> ColorGroup \<Rightarrow> TickPosition \<Rightarrow> error + pyval" where
  "brush SYSTEM self cg tickPosition =
     (let attr = (case cg of Active \<Rightarrow> brush_active
                   | Disabled \<Rightarrow> brush_disabled
                   | Inactive \<Rightarrow> brush_inactive);
          val = py_or (attr self) (attr SYSTEM);
          val = (case val of PyStr s \<Rightarrow> PyColor (QColor s None) | v \<Rightarrow> v)
      in if tickPosition \<noteq> NoTicks
         then setAlphaF val (num_or (tick_bar_alpha self) (tick_bar_alpha SYSTEM))
         else Inr val)"

text \<open>\<^verbatim>\<open>off += x\<close> with \<^verbatim>\<open>x\<close> being \<^verbatim>\<open>None\<close> raises \<^verbatim>\<open>TypeError\<close>.\<close>

definition add_num :: "rat \<Rightarrow> rat option \<Rightarrow> error + rat" where
  "add_num off x = (case x of None \<Rightarrow> Inl TypeError | Some v \<Rightarrow> Inr (off + v))"

definition sub_num :: "rat \<Rightarrow> rat option \<Rightarrow> error + rat" where
  "sub_num off x = (case x of None \<Rightarrow> Inl TypeError | Some v \<Rightarrow> Inr (off - v))"

definition offset ::
  "RangeSliderStyle \<Rightarrow> RangeSliderStyle \<Rightarrow> Orientation \<Rightarrow> TickPosition \<Rightarrow> error + rat" where
  "offset SYSTEM self orientation tp =
     (if \<not> has_stylesheet self then
        (case (if orientation = Horizontal
               then add_num 0 (num_or (num_or (h_offset self) (h_offset SYSTEM)) (Some 0))
               else add_num 0 (num_or (num_or (v_offset self) (v_offset SYSTEM)) (Some 0))) of
           Inl e \<Rightarrow> Inl e
         | Inr off \<Rightarrow>
             if and (tick_value tp) (tick_value TicksAbove) \<noteq> 0
             then add_num off (num_or (tick_offset self) (tick_offset SYSTEM))
             else if and (tick_value tp) (tick_value TicksBelow) \<noteq> 0
             then sub_num off (num_or (tick_offset self) (tick_offset SYSTEM))
             else Inr off)
      else Inr 0)"

text \<open>The result of \<open>thickness\<close> is a number or \<^verbatim>\<open>None\<close>.\<close>

definition thickness ::
  "RangeSliderStyle \<Rightarrow> RangeSliderStyle \<Rightarrow> Orientation \<Rightarrow> rat option" where
  "thickness SYSTEM self orientation =
     (if orientation = Horizontal
      then num_or (horizontal_thickness self) (horizontal_thickness SYSTEM)
      else num_or (vertical_thickness self) (vertical_thickness SYSTEM))"

section \<open>System-specific default styles\<close>

definition BASE_STYLE :: RangeSliderStyle where
  "BASE_STYLE = \<lparr>brush_active = PyStr ''#3B88FD'', brush_inactive = PyStr ''#8F8F8F'',
     brush_disabled = PyStr ''#BBBBBB'', pen_active = PyStr ''transparent'',
     pen_inactive = PyStr ''transparent'', pen_disabled = PyStr ''transparent'',
     vertical_thickness = Some 4, horizontal_thickness = Some 4, tick_offset = Some 0,
     tick_bar_alpha = Some (3 / 10), v_offset = Some 0, h_offset = Some 0,
     has_stylesheet = False\<rparr>"

definition CATALINA_STYLE :: RangeSliderStyle where
  "CATALINA_STYLE = BASE_STYLE\<lparr>brush_active := PyStr ''#3B88FD'',
     brush_inactive := PyStr ''#8F8F8F'', brush_disabled := PyStr ''#D2D2D2'',
     horizontal_thickness := Some 3, vertical_thickness := Some 3,
     tick_bar_alpha := Some (3 / 10), tick_offset := Some 4\<rparr>"

definition BIG_SUR_STYLE :: RangeSliderStyle where
  "BIG_SUR_STYLE = CATALINA_STYLE\<lparr>brush_active := PyStr ''#0A81FE'',
     brush_inactive := PyStr ''#D5D5D5'', brush_disabled := PyStr ''#E6E6E6'',
     tick_offset := Some 0, horizontal_thickness := Some 4, vertical_thickness := Some 4,
     h_offset := Some (- 2), tick_bar_alpha := Some (2 / 10)\<rparr>"

definition LINUX_STYLE :: RangeSliderStyle where
  "LINUX_STYLE = BASE_STYLE\<lparr>brush_active := PyStr ''#44A0D9'',
     brush_inactive := PyStr ''#44A0D9'', brush_disabled := PyStr ''#44A0D9'',
     pen_active := PyStr ''#286384'', pen_inactive := PyStr ''#286384'',
     pen_disabled := PyStr ''#286384''\<rparr>"

text \<open>
  The module-level selection, as a function of \<^verbatim>\<open>platform.system()\<close> and of
  \<^verbatim>\<open>platform.mac_ver()[0]\<close>. The text before the first dot of the version goes
  through \<^verbatim>\<open>int\<close>, whose \<^verbatim>\<open>ValueError\<close> is not caught.
\<close>

definition SYSTEM_STYLE :: "string \<Rightarrow> string \<Rightarrow> error + RangeSliderStyle" where
  "SYSTEM_STYLE SYSTEM mac_ver =
     (if SYSTEM = ''Darwin'' then
        (case py_int (takeWhile (\<lambda>c. c \<noteq> CHR ''.'') mac_ver) of
           None \<Rightarrow> Inl ValueError
         | Some n \<Rightarrow> if n \<ge> 11 then Inr BIG_SUR_STYLE else Inr CATALINA_STYLE)
      else if SYSTEM = ''Windows'' then Inr BASE_STYLE
      else if SYSTEM = ''Linux'' then Inr LINUX_STYLE
      else Inr BASE_STYLE)"

section \<open>Stylesheet parsing logic\<close>

subsection \<open>The patterns\<close>

text \<open>\<^verbatim>\<open>\S\<close>, and \<^verbatim>\<open>.\<close> without the \<^verbatim>\<open>re.S\<close> flag.\<close>

definition non_space :: "char \<Rightarrow> bool" where
  "non_space c = (\<not> is_space c)"

definition any_char :: "char \<Rightarrow> bool" where
  "any_char c = (c \<noteq> CHR 0x0A)"

text \<open>\<^verbatim>\<open>\d*\.?\d+\<close>\<close>

definition number :: regex where
  "number = seqs [Star is_digit, Opt (Chr (\<lambda>c. c = CHR ''.'')), Plus is_digit]"

text \<open>
  The two gradient patterns are compiled with \<^verbatim>\<open>re.X\<close>: the white space that lays the
  pattern out is not part of it. The named groups are numbered in order:
  \<^verbatim>\<open>x1 y1 x2 y2 stop0 stop1\<close> are 1 to 6, and \<^verbatim>\<open>cx cy radius fx fy stop0 stop1\<close>
  are 1 to 7.
\<close>

definition qlineargrad_pattern :: regex where
  "qlineargrad_pattern = seqs
     [lit ''qlineargradient('',
      lit ''x1:'', Star is_space, Grp 1 number, lit '','', Star is_space,
      lit ''y1:'', Star is_space, Grp 2 number, lit '','', Star is_space,
      lit ''x2:'', Star is_space, Grp 3 number, lit '','', Star is_space,
      lit ''y2:'', Star is_space, Grp 4 number, lit '','', Star is_space,
      lit ''stop:0'', Star is_space, Grp 5 (Plus non_space), lit '','', Star any_char,
      lit ''stop:1'', Star is_space, Grp 6 (Plus non_space),
      lit '')'']"

definition qradial_pattern :: regex where
  "qradial_pattern = seqs
     [lit ''qradialgradient('',
      lit ''cx:'', Star is_space, Grp 1 number, lit '','', Star is_space,
      lit ''cy:'', Star is_space, Grp 2 number, lit '','', Star is_space,
      lit ''radius:'', Star is_space, Grp 3 number, lit '','', Star is_space,
      lit ''fx:'', Star is_space, Grp 4 number, lit '','', Star is_space,
      lit ''fy:'', Star is_space, Grp 5 number, lit '','', Star is_space,
      lit ''stop:0'', Star is_space, Grp 6 (Plus non_space), lit '','', Star any_char,
      lit ''stop:1'', Star is_space, Grp 7 (Plus non_space),
      lit '')'']"

text \<open>\<^verbatim>\<open>Slider::sub-page:?([^{\s]*)?\s*{\s*([^}]+)}\<close>\<close>

definition subpage_pattern :: regex where
  "subpage_pattern = seqs
     [lit ''Slider::sub-page'', Opt (Chr (\<lambda>c. c = CHR '':'')),
      Opt (Grp 1 (Star (\<lambda>c. c \<noteq> CHR ''{'' \<and> \<not> is_space c))),
      Star is_space, lit ''{'', Star is_space,
      Grp 2 (Plus (\<lambda>c. c \<noteq> CHR ''}'')), lit ''}'']"

text \<open>\<^verbatim>\<open>background(-color)?:\s*([^;]+)\<close>\<close>

definition bgrd_pattern :: regex where
  "bgrd_pattern = seqs
     [lit ''background'', Opt (Grp 1 (lit ''-color'')), lit '':'', Star is_space,
      Grp 2 (Plus (\<lambda>c. c \<noteq> CHR '';''))]"

text \<open>\<^verbatim>\<open>Slider::groove:{orient}\s*{\s*([^}]+)}\<close> and \<^verbatim>\<open>{dim}\s*:\s*(\d+)\<close>\<close>

definition groove_pattern :: "string \<Rightarrow> regex" where
  "groove_pattern orient = seqs
     [lit (''Slider::groove:'' @ orient), Star is_space, lit ''{'', Star is_space,
      Grp 1 (Plus (\<lambda>c. c \<noteq> CHR ''}'')), lit ''}'']"

definition dim_pattern :: "string \<Rightarrow> regex" where
  "dim_pattern dimension = seqs
     [lit dimension, Star is_space, lit '':'', Star is_space, Grp 1 (Plus is_digit)]"

subsection \<open>\<^verbatim>\<open>parse_color\<close>\<close>

text \<open>\<^verbatim>\<open>match.groups()\<close> of a pattern with \<open>n\<close> groups, and \<^verbatim>\<open>float\<close> over a slice of it.\<close>

definition groups :: "nat \<Rightarrow> caps \<Rightarrow> string option list" where
  "groups n m = map m [1..<Suc n]"

fun floats :: "string option list \<Rightarrow> error + rat list" where
  "floats [] = Inr []"
| "floats (x # xs) =
     (case x of
        None \<Rightarrow> Inl TypeError
      | Some s \<Rightarrow>
          (case py_float s of
             None \<Rightarrow> Inl ValueError
           | Some v \<Rightarrow> (case floats xs of Inl e \<Rightarrow> Inl e | Inr vs \<Rightarrow> Inr (v # vs))))"

text \<open>\<^verbatim>\<open>QColor(x)\<close> of a group: a group that took no part is \<^verbatim>\<open>None\<close>, a \<^verbatim>\<open>TypeError\<close>.\<close>

definition QColor_of :: "string option \<Rightarrow> error + qcolor" where
  "QColor_of x = (case x of None \<Rightarrow> Inl TypeError | Some s \<Rightarrow> Inr (QColor s None))"

definition two_stops :: "string option \<Rightarrow> string option \<Rightarrow> qgradient \<Rightarrow> error + pyval" where
  "two_stops stop0 stop1 grad =
     (case QColor_of stop0 of
        Inl e \<Rightarrow> Inl e
      | Inr c0 \<Rightarrow>
          (case QColor_of stop1 of
             Inl e \<Rightarrow> Inl e
           | Inr c1 \<Rightarrow> Inr (PyGrad (setColorAt 1 c1 (setColorAt 0 c0 grad)))))"

definition linear_gradient :: "caps \<Rightarrow> error + pyval" where
  "linear_gradient m =
     (case floats (take 4 (groups 6 m)) of
        Inl e \<Rightarrow> Inl e
      | Inr [x1, y1, x2, y2] \<Rightarrow> two_stops (m 5) (m 6) (QLinearGradient x1 y1 x2 y2 [])
      | Inr _ \<Rightarrow> Inl TypeError)"

definition radial_gradient :: "caps \<Rightarrow> error + pyval" where
  "radial_gradient m =
     (case floats (take 5 (groups 7 m)) of
        Inl e \<Rightarrow> Inl e
      | Inr [cx, cy, radius, fx, fy] \<Rightarrow>
          two_stops (m 6) (m 7) (QRadialGradient cx cy radius fx fy [])
      | Inr _ \<Rightarrow> Inl TypeError)"

text \<open>\<^verbatim>\<open>match.groupdict()\<close>: on \<^verbatim>\<open>None\<close> the attribute does not exist.\<close>

definition groupdict :: "caps option \<Rightarrow> error + caps" where
  "groupdict match = (case match of None \<Rightarrow> Inl AttributeError | Some m \<Rightarrow> Inr m)"

text \<open>
  \<open>isValid s\<close> stands for \<^verbatim>\<open>QColor(s).isValid()\<close>, which Qt decides. The statement
  \<^verbatim>\<open>print("match", match.groupdict())\<close> is kept for the exception it can raise; what it
  prints is not modelled.
\<close>

definition parse_color :: "(string \<Rightarrow> bool) \<Rightarrow> string \<Rightarrow> error + pyval" where
  "parse_color isValid color =
     (if isValid color then Inr (PyColor (QColor color None))
      else
        (case re_match qlineargrad_pattern color of
           Some m \<Rightarrow> linear_gradient m
         | None \<Rightarrow>
             (let match = re_match qradial_pattern color in
              case groupdict match of
                Inl e \<Rightarrow> Inl e
              | Inr _ \<Rightarrow>
                  (case match of
                     Some m \<Rightarrow> radial_gradient m
                   | None \<Rightarrow> Inr (PyStr ''#333'')))))"

subsection \<open>\<^verbatim>\<open>update_styles_from_stylesheet\<close>\<close>

text \<open>
  The widget as the function sees it: its own stylesheet, the stylesheets of its parent,
  of the parent's parent and so on up to the top-level widget, the application's
  stylesheet, the name of its class, and its style record.
\<close>

record widget =
  styleSheet :: string
  parents :: "string list"
  app_styleSheet :: string
  class_name :: string
  style :: RangeSliderStyle

text \<open>
  The loop \<^verbatim>\<open>while p.parent(): qss = p.styleSheet() + qss; p = p.parent()\<close> on the chain
  of stylesheets that starts at \<open>p\<close>.
\<close>

fun climb :: "string list \<Rightarrow> string \<Rightarrow> string" where
  "climb (a # b # rest) qss = climb (b # rest) (a @ qss)"
| "climb chain qss = qss"

definition collect_qss :: "widget \<Rightarrow> string" where
  "collect_qss obj =
     app_styleSheet obj @ climb (styleSheet obj # parents obj) (styleSheet obj)"

text \<open>\<^verbatim>\<open>str.splitlines()\<close>; the first argument is the line read so far, reversed.\<close>

fun splitlines_from :: "string \<Rightarrow> string \<Rightarrow> string list" where
  "splitlines_from cur [] = (if cur = [] then [] else [rev cur])"
| "splitlines_from cur (c # cs) =
     (if is_linebreak c then
        rev cur #
        (case cs of
           [] \<Rightarrow> splitlines_from [] cs
         | d # ds \<Rightarrow>
             if c = CHR 0x0D \<and> d = CHR 0x0A then splitlines_from [] ds
             else splitlines_from [] cs)
      else splitlines_from (c # cur) cs)"

definition splitlines :: "string \<Rightarrow> string list" where
  "splitlines s = splitlines_from [] s"

text \<open>A group inside an f-string: \<^verbatim>\<open>None\<close> is printed as its name.\<close>

definition fmt :: "string option \<Rightarrow> string" where
  "fmt x = (case x of None \<Rightarrow> ''None'' | Some s \<Rightarrow> s)"

text \<open>
  The functions below return the exception that escaped, if any, with the widget as the
  statements before the exception left it.

  The loop over the reversed lines of the sub-page block: it stops at the first line that
  has a background declaration.
\<close>

fun scan_background ::
  "(string \<Rightarrow> bool) \<Rightarrow> string \<Rightarrow> string option \<Rightarrow> string list \<Rightarrow> widget
     \<Rightarrow> error option \<times> widget" where
  "scan_background isValid qss orientation [] obj = (None, obj)"
| "scan_background isValid qss orientation (line # rest) obj =
     (case re_search bgrd_pattern line of
        None \<Rightarrow> scan_background isValid qss orientation rest obj
      | Some bgrd \<Rightarrow>
          (case bgrd 2 of
             None \<Rightarrow> (Some TypeError, obj)
           | Some v \<Rightarrow>
               (case parse_color isValid v of
                  Inl e \<Rightarrow> (Some e, obj)
                | Inr color \<Rightarrow>
                    (None, obj\<lparr>style := (style obj)\<lparr>brush_active := color,
                                   brush_inactive := color, brush_disabled := color,
                                   has_stylesheet := True\<rparr>,
                                styleSheet := qss @ [CHR 0x0A] @ class_name obj
                                   @ ''::sub-page:'' @ fmt orientation
                                   @ ''{background: none}''\<rparr>))))"

definition find_bar_color ::
  "(string \<Rightarrow> bool) \<Rightarrow> string \<Rightarrow> widget \<Rightarrow> error option \<times> widget" where
  "find_bar_color isValid qss obj =
     (case re_search subpage_pattern qss of
        None \<Rightarrow> (None, obj)
      | Some m \<Rightarrow>
          (case m 2 of
             None \<Rightarrow> (Some AttributeError, obj)
           | Some content \<Rightarrow>
               scan_background isValid qss (m 1) (rev (splitlines content)) obj))"

fun orient_name :: "Orientation \<Rightarrow> string" where
  "orient_name Horizontal = ''horizontal''"
| "orient_name Vertical = ''vertical''"

text \<open>\<^verbatim>\<open>setattr(obj._style, f"{orient}_thickness", thickness)\<close>\<close>

fun set_thickness :: "Orientation \<Rightarrow> rat \<Rightarrow> RangeSliderStyle \<Rightarrow> RangeSliderStyle" where
  "set_thickness Horizontal v st = st\<lparr>horizontal_thickness := Some v\<rparr>"
| "set_thickness Vertical v st = st\<lparr>vertical_thickness := Some v\<rparr>"

text \<open>
  The loop over the reversed lines of a groove block: it has no \<^verbatim>\<open>break\<close>, so every line
  with a declaration assigns in turn.
\<close>

fun scan_dim ::
  "string \<Rightarrow> Orientation \<Rightarrow> string list \<Rightarrow> RangeSliderStyle
     \<Rightarrow> error option \<times> RangeSliderStyle" where
  "scan_dim dimension orient [] st = (None, st)"
| "scan_dim dimension orient (line # rest) st =
     (case re_search (dim_pattern dimension) line of
        None \<Rightarrow> scan_dim dimension orient rest st
      | Some bgrd \<Rightarrow>
          (case bgrd 1 of
             None \<Rightarrow> (Some TypeError, st)
           | Some d \<Rightarrow>
               (case py_float d of
                  None \<Rightarrow> (Some ValueError, st)
                | Some t \<Rightarrow>
                    scan_dim dimension orient rest
                      ((set_thickness orient t st)\<lparr>has_stylesheet := True\<rparr>))))"

definition find_bar_size ::
  "Orientation \<Rightarrow> string \<Rightarrow> string \<Rightarrow> RangeSliderStyle
     \<Rightarrow> error option \<times> RangeSliderStyle" where
  "find_bar_size orient dimension qss st =
     (case re_search (groove_pattern (orient_name orient)) qss of
        None \<Rightarrow> (None, st)
      | Some m \<Rightarrow>
          (case m 1 of
             None \<Rightarrow> (Some AttributeError, st)
           | Some body \<Rightarrow> scan_dim dimension orient (rev (splitlines body)) st))"

definition update_styles_from_stylesheet ::
  "(string \<Rightarrow> bool) \<Rightarrow> widget \<Rightarrow> error option \<times> widget" where
  "update_styles_from_stylesheet isValid obj =
     (let qss = collect_qss obj;
          obj0 = obj\<lparr>style := (style obj)\<lparr>has_stylesheet := False\<rparr>\<rparr>
      in case find_bar_color isValid qss obj0 of
           (Some e, obj1) \<Rightarrow> (Some e, obj1)
         | (None, obj1) \<Rightarrow>
             (case find_bar_size Horizontal ''height'' qss (style obj1) of
                (Some e, st) \<Rightarrow> (Some e, obj1\<lparr>style := st\<rparr>)
              | (None, st) \<Rightarrow>
                  (case find_bar_size Vertical ''width'' qss st of
                     (e, st') \<Rightarrow> (e, obj1\<lparr>style := st'\<rparr>))))"

section \<open>Reference definitions for the stated properties\<close>

text \<open>
  The value of a fallback chain as the specification words it, over fields that are set
  or unset: the instance field, else the platform default, else 0.
\<close>

definition resolved :: "rat option \<Rightarrow> rat option \<Rightarrow> rat" where
  "resolved inst dflt =
     (case inst of
        Some v \<Rightarrow> v
      | None \<Rightarrow> (case dflt of Some d \<Rightarrow> d | None \<Rightarrow> 0))"

text \<open>
  The offset as the specification states it for a record without stylesheet override: the
  base offset of the orientation, plus the tick offset for ticks above, minus it for
  ticks below, alone without ticks. Ticks on both sides are above and below; the first of
  the two branches is taken.
\<close>

definition stated_offset ::
  "RangeSliderStyle \<Rightarrow> RangeSliderStyle \<Rightarrow> Orientation \<Rightarrow> TickPosition \<Rightarrow> rat" where
  "stated_offset SYSTEM self orientation tp =
     (let base = (case orientation of
                    Horizontal \<Rightarrow> resolved (h_offset self) (h_offset SYSTEM)
                  | Vertical \<Rightarrow> resolved (v_offset self) (v_offset SYSTEM));
          tick = resolved (tick_offset self) (tick_offset SYSTEM)
      in case tp of
           NoTicks \<Rightarrow> base
         | TicksAbove \<Rightarrow> base + tick
         | TicksBelow \<Rightarrow> base - tick
         | TicksBothSides \<Rightarrow> base + tick)"

text \<open>
  The same with the fallback chain amended: the instance field when it is set and is not
  zero, else the platform default, else 0.
\<close>

definition resolved_nonzero :: "rat option \<Rightarrow> rat option \<Rightarrow> rat" where
  "resolved_nonzero inst dflt =
     (case inst of
        Some v \<Rightarrow> if v \<noteq> 0 then v else (case dflt of Some d \<Rightarrow> d | None \<Rightarrow> 0)
      | None \<Rightarrow> (case dflt of Some d \<Rightarrow> d | None \<Rightarrow> 0))"

definition amended_offset ::
  "RangeSliderStyle \<Rightarrow> RangeSliderStyle \<Rightarrow> Orientation \<Rightarrow> TickPosition \<Rightarrow> rat" where
  "amended_offset SYSTEM self orientation tp =
     (let base = (case orientation of
                    Horizontal \<Rightarrow> resolved_nonzero (h_offset self) (h_offset SYSTEM)
                  | Vertical \<Rightarrow> resolved_nonzero (v_offset self) (v_offset SYSTEM));
          tick = resolved_nonzero (tick_offset self) (tick_offset SYSTEM)
      in case tp of
           NoTicks \<Rightarrow> base
         | TicksAbove \<Rightarrow> base + tick
         | TicksBelow \<Rightarrow> base - tick
         | TicksBothSides \<Rightarrow> base + tick)"

text \<open>The characters that can occur in a text that \<^verbatim>\<open>int\<close> accepts.\<close>

definition int_char :: "char \<Rightarrow> bool" where
  "int_char c = (is_digit c \<or> is_int_space c \<or> c \<in> set ''+-_'')"

text \<open>
  An instance for the parameter \<open>isValid\<close>: the hexadecimal notations that \<^verbatim>\<open>QColor\<close>
  accepts, a \<^verbatim>\<open>#\<close> followed by 3, 6, 8, 9 or 12 hexadecimal digits.
\<close>

definition is_hex_digit :: "char \<Rightarrow> bool" where
  "is_hex_digit c = (c \<in> set ''0123456789abcdefABCDEF'')"

definition hex_color :: "string \<Rightarrow> bool" where
  "hex_color s =
     (case s of
        [] \<Rightarrow> False
      | c # ds \<Rightarrow>
          c = CHR ''#'' \<and> length ds \<in> set [3, 6, 8, 9, 12] \<and> list_all is_hex_digit ds)"

text \<open>
  A top-level \<^verbatim>\<open>QRangeSlider\<close> with the given stylesheet, an empty application
  stylesheet and a style record with every field unset.
\<close>

definition plain_widget :: "string \<Rightarrow> widget" where
  "plain_widget qss = \<lparr>styleSheet = qss, parents = [], app_styleSheet = [],
     class_name = ''QRangeSlider'', style = unset_style\<rparr>"

text \<open>The stylesheet of the extraction scenario of the specification.\<close>

definition scenario_qss :: string where
  "scenario_qss = ''QRangeSlider::sub-page:horizontal { background-color: #ff0000; } QRangeSlider::groove:horizontal { height: 10; }''"

text \<open>A groove block with two heights, and a sub-page block with two backgrounds.\<close>

definition two_heights :: string where
  "two_heights = ''QSlider::groove:horizontal {\<newline>height: 5;\<newline>height: 10;\<newline>}''"

definition two_backgrounds :: string where
  "two_backgrounds = ''QSlider::sub-page {\<newline>background: #111111;\<newline>background-color: #222222;\<newline>margin: 2px;\<newline>}''"

section \<open>Properties of the accessors\<close>

lemma SYSTEM_STYLE_cases:
  "SYSTEM_STYLE system ver = Inr sys \<Longrightarrow>
     sys = BASE_STYLE \<or> sys = CATALINA_STYLE \<or> sys = BIG_SUR_STYLE \<or> sys = LINUX_STYLE"
  by (auto simp: SYSTEM_STYLE_def split: if_splits option.splits)

text \<open>
  Claim C5: whenever \<open>has_stylesheet\<close> is true, \<open>offset\<close> returns exactly 0, for every
  orientation, tick position, platform default and value of the other fields.
\<close>

theorem offset_zero_with_stylesheet:
  "has_stylesheet self \<Longrightarrow> offset SYSTEM self orientation tp = Inr 0"
  by (simp add: offset_def)

theorem offset_zero_with_stylesheet_witness:
  "has_stylesheet (unset_style\<lparr>tick_offset := Some 5, h_offset := Some 7,
                               has_stylesheet := True\<rparr>) \<and>
   offset BIG_SUR_STYLE (unset_style\<lparr>tick_offset := Some 5, h_offset := Some 7,
                                      has_stylesheet := True\<rparr>) Horizontal TicksAbove = Inr 0"
  using offset_zero_with_stylesheet
    [of "unset_style\<lparr>tick_offset := Some 5, h_offset := Some 7, has_stylesheet := True\<rparr>"
        BIG_SUR_STYLE Horizontal TicksAbove]
  by simp

text \<open>
  Claim C8: for every platform default record that the selection can produce and both
  orientations, \<open>thickness\<close> on the wholly unset instance record returns a number, not
  \<^verbatim>\<open>None\<close>, and the number is strictly positive.
\<close>

theorem thickness_unset_positive:
  "SYSTEM_STYLE system ver = Inr sys \<Longrightarrow>
     \<exists>v. thickness sys unset_style orientation = Some v \<and> 0 < v"
  by (drule SYSTEM_STYLE_cases)
     (auto simp: thickness_def unset_style_def num_or_def BASE_STYLE_def CATALINA_STYLE_def
        BIG_SUR_STYLE_def LINUX_STYLE_def)

theorem thickness_unset_positive_witness:
  "SYSTEM_STYLE ''Darwin'' ''10.15.7'' = Inr CATALINA_STYLE \<and>
   (\<exists>v. thickness CATALINA_STYLE unset_style Vertical = Some v \<and> 0 < v)"
proof -
  have h: "SYSTEM_STYLE ''Darwin'' ''10.15.7'' = Inr CATALINA_STYLE"
    by (simp add: SYSTEM_STYLE_def py_int_def int_strip_def is_int_space_def py_nat_def
          is_digit_def digit_val_def int_max_str_digits_def)
  show ?thesis
    using h thickness_unset_positive [OF h, of Vertical] by simp
qed

lemma SYSTEM_STYLE_populated:
  assumes "SYSTEM_STYLE system ver = Inr sys"
  shows "\<exists>t h v. tick_offset sys = Some t \<and> h_offset sys = Some h \<and> v_offset sys = Some v"
  using SYSTEM_STYLE_cases [OF assms]
  by (auto simp: BASE_STYLE_def CATALINA_STYLE_def BIG_SUR_STYLE_def LINUX_STYLE_def)

text \<open>
  Claim C6 says that without stylesheet override \<open>offset\<close> returns the base offset
  (instance field, else platform default, else 0) plus or minus the resolved tick offset.
  The fallback chains test truthiness: an instance field set to 0 is passed over. On the
  Big Sur defaults, whose horizontal offset is -2, an instance with horizontal offset 0
  and no ticks gets -2, where the statement gives the instance field, 0.
\<close>

theorem offset_passes_over_zero_field:
  "\<not> has_stylesheet (unset_style\<lparr>h_offset := Some 0\<rparr>) \<and>
   offset BIG_SUR_STYLE (unset_style\<lparr>h_offset := Some 0\<rparr>) Horizontal NoTicks = Inr (- 2) \<and>
   stated_offset BIG_SUR_STYLE (unset_style\<lparr>h_offset := Some 0\<rparr>) Horizontal NoTicks = 0"
  by (simp add: offset_def stated_offset_def resolved_def num_or_def add_num_def
        unset_style_def BIG_SUR_STYLE_def CATALINA_STYLE_def BASE_STYLE_def)

text \<open>
  Claim C6, amended: with \<open>has_stylesheet\<close> false and any of the platform defaults,
  \<open>offset\<close> returns, for either orientation, the base offset of that orientation (the
  instance field when it is set and not zero, else the platform default, else 0) plus the
  resolved tick offset (the instance field when it is set and not zero, else the platform
  default) when the ticks are above, minus it when they are below, and the base offset
  alone when there are no ticks; the tick position picks exactly one of the branches
  (ticks on both sides go with above).
\<close>

theorem offset_without_stylesheet:
  assumes "SYSTEM_STYLE system ver = Inr sys" and "\<not> has_stylesheet self"
  shows "offset sys self orientation tp = Inr (amended_offset sys self orientation tp)"
proof -
  obtain t h v where p: "tick_offset sys = Some t" "h_offset sys = Some h" "v_offset sys = Some v"
    using SYSTEM_STYLE_populated [OF assms(1)] by blast
  show ?thesis
    by (cases orientation; cases tp)
       (simp_all add: offset_def amended_offset_def assms(2) p num_or_def resolved_nonzero_def
          add_num_def sub_num_def split: option.splits)
qed

theorem offset_without_stylesheet_witness:
  "offset CATALINA_STYLE (unset_style\<lparr>h_offset := Some 3\<rparr>) Horizontal TicksBelow = Inr (- 1) \<and>
   offset CATALINA_STYLE (unset_style\<lparr>h_offset := Some 3\<rparr>) Horizontal TicksAbove = Inr 7 \<and>
   offset CATALINA_STYLE (unset_style\<lparr>h_offset := Some 3\<rparr>) Horizontal NoTicks = Inr 3"
proof -
  have h: "SYSTEM_STYLE ''Darwin'' ''10.15.7'' = Inr CATALINA_STYLE"
    by (simp add: SYSTEM_STYLE_def py_int_def int_strip_def is_int_space_def py_nat_def
          is_digit_def digit_val_def int_max_str_digits_def)
  have n: "\<not> has_stylesheet (unset_style\<lparr>h_offset := Some 3\<rparr>)"
    by (simp add: unset_style_def)
  show ?thesis
    using offset_without_stylesheet [OF h n, of Horizontal TicksBelow]
      offset_without_stylesheet [OF h n, of Horizontal TicksAbove]
      offset_without_stylesheet [OF h n, of Horizontal NoTicks]
    by (simp add: amended_offset_def resolved_nonzero_def unset_style_def CATALINA_STYLE_def
          BASE_STYLE_def)
qed

text \<open>
  Where no instance field is set to 0 the amended chain and the stated one agree, and
  \<open>offset\<close> returns the offset as stated.
\<close>

lemma resolved_nonzero_is_resolved:
  "inst \<noteq> Some 0 \<Longrightarrow> resolved_nonzero inst dflt = resolved inst dflt"
  by (simp add: resolved_nonzero_def resolved_def split: option.splits)

lemma amended_offset_is_stated:
  assumes "h_offset self \<noteq> Some 0" and "v_offset self \<noteq> Some 0"
    and "tick_offset self \<noteq> Some 0"
  shows "amended_offset SYSTEM self orientation tp = stated_offset SYSTEM self orientation tp"
  using assms
  by (cases orientation)
     (simp_all add: amended_offset_def stated_offset_def resolved_nonzero_is_resolved)

text \<open>
  Claim C10: the fallback chains test truthiness, so an instance field set to 0 is treated
  exactly like an unset one: a thickness of 0 gives the platform's thickness, and a zero
  offset, tick offset or tick-bar alpha leaves \<open>offset\<close> and \<open>brush\<close> as they are with the
  field unset.
\<close>

theorem zero_field_is_unset:
  "thickness SYSTEM (self\<lparr>horizontal_thickness := Some 0\<rparr>) Horizontal
     = horizontal_thickness SYSTEM \<and>
   thickness SYSTEM (self\<lparr>vertical_thickness := Some 0\<rparr>) Vertical
     = vertical_thickness SYSTEM \<and>
   thickness SYSTEM (self\<lparr>horizontal_thickness := Some 0\<rparr>) orientation
     = thickness SYSTEM (self\<lparr>horizontal_thickness := None\<rparr>) orientation \<and>
   thickness SYSTEM (self\<lparr>vertical_thickness := Some 0\<rparr>) orientation
     = thickness SYSTEM (self\<lparr>vertical_thickness := None\<rparr>) orientation \<and>
   offset SYSTEM (self\<lparr>h_offset := Some 0\<rparr>) orientation tp
     = offset SYSTEM (self\<lparr>h_offset := None\<rparr>) orientation tp \<and>
   offset SYSTEM (self\<lparr>v_offset := Some 0\<rparr>) orientation tp
     = offset SYSTEM (self\<lparr>v_offset := None\<rparr>) orientation tp \<and>
   offset SYSTEM (self\<lparr>tick_offset := Some 0\<rparr>) orientation tp
     = offset SYSTEM (self\<lparr>tick_offset := None\<rparr>) orientation tp \<and>
   brush SYSTEM (self\<lparr>tick_bar_alpha := Some 0\<rparr>) cg tickPosition
     = brush SYSTEM (self\<lparr>tick_bar_alpha := None\<rparr>) cg tickPosition"
  by (cases cg)
     (simp_all add: thickness_def offset_def brush_def num_or_def Let_def
        cong: if_cong sum.case_cong option.case_cong)

text \<open>
  Claim C2 says that a gradient fill is returned unmodified whatever the tick position,
  and that \<open>brush\<close> never fails. With the three fill fields holding a gradient, as the
  stylesheet extraction leaves them, \<open>brush\<close> returns the gradient as it is when no ticks
  are drawn; with ticks drawn it calls \<^verbatim>\<open>setAlphaF\<close> on the gradient, which a gradient
  does not have, for every colour group.
\<close>

theorem brush_gradient_with_ticks:
  "brush SYSTEM (self\<lparr>brush_active := PyGrad g, brush_inactive := PyGrad g,
                       brush_disabled := PyGrad g\<rparr>) cg tickPosition
     = (if tickPosition = NoTicks then Inr (PyGrad g) else Inl AttributeError)"
  by (cases cg) (simp_all add: brush_def py_or_def)

section \<open>Platform default selection\<close>

lemma digit_not_special:
  "is_digit c \<Longrightarrow> \<not> is_int_space c \<and> c \<noteq> CHR ''-'' \<and> c \<noteq> CHR ''+'' \<and> c \<noteq> CHR ''.''"
  by (auto simp: is_digit_def is_int_space_def)

lemma int_digits_all:
  "list_all is_digit ds \<Longrightarrow>
     int_digits ds acc = Some (foldl (\<lambda>a c. 10 * a + digit_val c) acc ds)"
  by (induction ds arbitrary: acc) simp_all

lemma dropWhile_hd: "xs \<noteq> [] \<Longrightarrow> \<not> P (hd xs) \<Longrightarrow> dropWhile P xs = xs"
  by (cases xs) simp_all

lemma int_strip_digits:
  assumes "ds \<noteq> []" and "list_all is_digit ds"
  shows "int_strip ds = ds"
proof -
  have a: "\<not> is_int_space (hd ds)"
    using assms digit_not_special by (cases ds) auto
  have "last ds \<in> set ds" using assms(1) by simp
  then have "is_digit (last ds)" using assms(2) by (simp add: list_all_iff)
  then have b: "\<not> is_int_space (hd (rev ds))"
    using assms(1) digit_not_special by (simp add: hd_rev)
  show ?thesis
    using assms(1) by (simp add: int_strip_def dropWhile_hd a b)
qed

lemma filter_digits: "list_all is_digit ds \<Longrightarrow> filter is_digit ds = ds"
  by (induction ds) simp_all

text \<open>
  \<^verbatim>\<open>int\<close> of a plain run of digits is its decimal value, up to the digit limit; a longer
  run is rejected.
\<close>

lemma py_int_digits:
  assumes "ds \<noteq> []" and "list_all is_digit ds" and "length ds \<le> int_max_str_digits"
  shows "py_int ds = Some (int (dec_val ds))"
proof -
  obtain c cs where ds: "ds = c # cs" using assms(1) by (cases ds) auto
  then have c: "is_digit c" and cs: "list_all is_digit cs" using assms(2) by simp_all
  have "length (filter is_digit ds) \<le> int_max_str_digits"
    using assms(3) by (simp add: filter_digits [OF assms(2)])
  then have "py_nat ds = Some (dec_val ds)"
    by (simp add: py_nat_def ds c int_digits_all [OF cs] dec_val_def)
  then show ?thesis
    using digit_not_special [OF c] int_strip_digits [OF assms(1,2)]
    by (simp add: py_int_def ds)
qed

lemma py_int_long_digits:
  assumes "list_all is_digit ds" and "int_max_str_digits < length ds"
  shows "py_int ds = None"
proof -
  have ne: "ds \<noteq> []" using assms(2) by auto
  then obtain c cs where ds: "ds = c # cs" by (cases ds) auto
  then have c: "is_digit c" using assms(1) by simp
  have "\<not> length (filter is_digit ds) \<le> int_max_str_digits"
    using assms(2) by (simp add: filter_digits [OF assms(1)])
  then have "py_nat ds = None"
    by (simp add: py_nat_def ds)
  then show ?thesis
    using digit_not_special [OF c] int_strip_digits [OF ne assms(1)]
    by (simp add: py_int_def ds)
qed

lemma takeWhile_digits:
  "list_all is_digit ds \<Longrightarrow> takeWhile (\<lambda>c. c \<noteq> CHR ''.'') (ds @ CHR ''.'' # rest) = ds"
  "list_all is_digit ds \<Longrightarrow> takeWhile (\<lambda>c. c \<noteq> CHR ''.'') ds = ds"
  using digit_not_special by (induction ds) auto

text \<open>
  \<^verbatim>\<open>int\<close> accepts only texts made of digits, white space, signs and underscores.
\<close>

lemma int_digits_chars:
  "int_digits cs acc = Some v \<Longrightarrow> list_all int_char cs"
proof (induction cs acc rule: int_digits.induct)
  case (1 acc)
  then show ?case by simp
next
  case (2 c cs acc)
  show ?case
  proof (cases "is_digit c")
    case True
    with 2 show ?thesis by (simp add: int_char_def)
  next
    case False
    with "2.prems" have u: "c = CHR ''_''"
      by (simp split: if_splits)
    with False "2.prems" obtain d ds where cs: "cs = d # ds" and d: "is_digit d"
      and r: "int_digits ds (10 * acc + digit_val d) = Some v"
      by (cases cs) (auto split: if_splits)
    from "2.IH"(2) [OF False u cs d r] show ?thesis
      using u cs d by (simp add: int_char_def)
  qed
qed

lemma py_nat_chars: "py_nat s = Some v \<Longrightarrow> list_all int_char s"
  by (cases s) (auto simp: py_nat_def int_char_def split: if_splits dest: int_digits_chars)

lemma set_dropWhile_sub: "set xs \<subseteq> {x. P x} \<union> set (dropWhile P xs)"
  by (induction xs) auto

lemma int_strip_chars:
  assumes "list_all int_char (int_strip s)"
  shows "list_all int_char s"
proof -
  have 1: "set s \<subseteq> {x. is_int_space x} \<union> set (dropWhile is_int_space s)"
    by (rule set_dropWhile_sub)
  have "set (rev (dropWhile is_int_space s))
          \<subseteq> {x. is_int_space x} \<union> set (dropWhile is_int_space (rev (dropWhile is_int_space s)))"
    by (rule set_dropWhile_sub)
  then have 2: "set (dropWhile is_int_space s) \<subseteq> {x. is_int_space x} \<union> set (int_strip s)"
    by (simp add: int_strip_def)
  have "\<forall>x \<in> set s. int_char x"
  proof
    fix x assume "x \<in> set s"
    with 1 2 have "is_int_space x \<or> x \<in> set (int_strip s)" by blast
    then show "int_char x"
      using assms by (auto simp: int_char_def list_all_iff)
  qed
  then show ?thesis by (simp add: list_all_iff)
qed

lemma py_int_chars:
  assumes "py_int s = Some n"
  shows "list_all int_char s"
proof -
  obtain c cs where st: "int_strip s = c # cs"
    using assms by (cases "int_strip s") (auto simp: py_int_def)
  have "list_all int_char (c # cs)"
  proof (cases "c = CHR ''-'' \<or> c = CHR ''+''")
    case True
    then obtain v where "py_nat cs = Some v"
      using assms st by (auto simp: py_int_def split: if_splits)
    from py_nat_chars [OF this] True show ?thesis
      by (auto simp: int_char_def)
  next
    case False
    then obtain v where "py_nat (c # cs) = Some v"
      using assms st by (auto simp: py_int_def split: if_splits)
    from py_nat_chars [OF this] show ?thesis .
  qed
  then show ?thesis
    using int_strip_chars st by simp
qed

text \<open>
  Claim C9 says that the selection is a total function of the system name and the macOS
  version string. It is not: on \<^verbatim>\<open>Darwin\<close> an empty version string, which
  \<^verbatim>\<open>platform.mac_ver\<close> returns when it finds no version, makes \<^verbatim>\<open>int\<close> raise.
\<close>

theorem selection_fails_on_empty_version:
  "SYSTEM_STYLE ''Darwin'' [] = Inl ValueError"
  by (simp add: SYSTEM_STYLE_def py_int_def int_strip_def)

text \<open>
  Claim C9, amended: for every system name other than \<^verbatim>\<open>Darwin\<close> the selection returns a
  preset and cannot fail, the Linux preset for \<^verbatim>\<open>Linux\<close> and the base preset for
  \<^verbatim>\<open>Windows\<close> and every unknown name. On \<^verbatim>\<open>Darwin\<close> the text before the first dot of
  the version string goes through \<^verbatim>\<open>int\<close>: when \<^verbatim>\<open>int\<close> accepts it, a value of at
  least 11 selects the Big Sur preset and a smaller one the Catalina preset; when
  \<^verbatim>\<open>int\<close> rejects it, the selection raises \<^verbatim>\<open>ValueError\<close>. In particular a run of
  digits within the digit limit, alone or followed by a dot and anything, selects by its
  decimal value, and a leading text that is empty or has a character other than digits,
  white space, signs and underscores raises \<^verbatim>\<open>ValueError\<close>.
\<close>

theorem platform_selection:
  "(system \<noteq> ''Darwin'' \<longrightarrow>
      SYSTEM_STYLE system ver = Inr (if system = ''Linux'' then LINUX_STYLE else BASE_STYLE)) \<and>
   (py_int (takeWhile (\<lambda>c. c \<noteq> CHR ''.'') ver) = Some n \<longrightarrow>
      SYSTEM_STYLE ''Darwin'' ver = Inr (if 11 \<le> n then BIG_SUR_STYLE else CATALINA_STYLE)) \<and>
   (py_int (takeWhile (\<lambda>c. c \<noteq> CHR ''.'') ver) = None \<longrightarrow>
      SYSTEM_STYLE ''Darwin'' ver = Inl ValueError) \<and>
   (ds \<noteq> [] \<and> list_all is_digit ds \<and> length ds \<le> int_max_str_digits \<longrightarrow>
      SYSTEM_STYLE ''Darwin'' ds
        = Inr (if 11 \<le> dec_val ds then BIG_SUR_STYLE else CATALINA_STYLE) \<and>
      SYSTEM_STYLE ''Darwin'' (ds @ CHR ''.'' # rest)
        = Inr (if 11 \<le> dec_val ds then BIG_SUR_STYLE else CATALINA_STYLE)) \<and>
   (\<not> list_all int_char (takeWhile (\<lambda>c. c \<noteq> CHR ''.'') ver) \<longrightarrow>
      SYSTEM_STYLE ''Darwin'' ver = Inl ValueError) \<and>
   SYSTEM_STYLE ''Darwin'' [] = Inl ValueError \<and>
   SYSTEM_STYLE ''Darwin'' (CHR ''.'' # rest) = Inl ValueError"
proof -
  have a: "system \<noteq> ''Darwin'' \<longrightarrow>
      SYSTEM_STYLE system ver = Inr (if system = ''Linux'' then LINUX_STYLE else BASE_STYLE)"
    by (simp add: SYSTEM_STYLE_def)
  have b: "py_int (takeWhile (\<lambda>c. c \<noteq> CHR ''.'') ver) = Some n \<longrightarrow>
      SYSTEM_STYLE ''Darwin'' ver = Inr (if 11 \<le> n then BIG_SUR_STYLE else CATALINA_STYLE)"
    by (simp add: SYSTEM_STYLE_def)
  have c: "py_int (takeWhile (\<lambda>c. c \<noteq> CHR ''.'') ver) = None \<longrightarrow>
      SYSTEM_STYLE ''Darwin'' ver = Inl ValueError"
    by (simp add: SYSTEM_STYLE_def)
  have d: "ds \<noteq> [] \<and> list_all is_digit ds \<and> length ds \<le> int_max_str_digits \<longrightarrow>
      SYSTEM_STYLE ''Darwin'' ds
        = Inr (if 11 \<le> dec_val ds then BIG_SUR_STYLE else CATALINA_STYLE) \<and>
      SYSTEM_STYLE ''Darwin'' (ds @ CHR ''.'' # rest)
        = Inr (if 11 \<le> dec_val ds then BIG_SUR_STYLE else CATALINA_STYLE)"
    by (simp add: SYSTEM_STYLE_def takeWhile_digits py_int_digits)
  have e: "\<not> list_all int_char (takeWhile (\<lambda>c. c \<noteq> CHR ''.'') ver) \<longrightarrow>
      SYSTEM_STYLE ''Darwin'' ver = Inl ValueError"
  proof
    assume n: "\<not> list_all int_char (takeWhile (\<lambda>c. c \<noteq> CHR ''.'') ver)"
    have "py_int (takeWhile (\<lambda>c. c \<noteq> CHR ''.'') ver) = None"
    proof (cases "py_int (takeWhile (\<lambda>c. c \<noteq> CHR ''.'') ver)")
      case None
      then show ?thesis .
    next
      case (Some k)
      from py_int_chars [OF this] n show ?thesis by simp
    qed
    with c show "SYSTEM_STYLE ''Darwin'' ver = Inl ValueError" by simp
  qed
  have f: "SYSTEM_STYLE ''Darwin'' [] = Inl ValueError"
    "SYSTEM_STYLE ''Darwin'' (CHR ''.'' # rest) = Inl ValueError"
    by (simp_all add: SYSTEM_STYLE_def py_int_def int_strip_def)
  from a b c d e f show ?thesis by blast
qed

theorem platform_selection_witness:
  "SYSTEM_STYLE ''FreeBSD'' ''13.0'' = Inr BASE_STYLE \<and>
   SYSTEM_STYLE ''Darwin'' ''12'' = Inr BIG_SUR_STYLE \<and>
   SYSTEM_STYLE ''Darwin'' ''12.6.1'' = Inr BIG_SUR_STYLE \<and>
   SYSTEM_STYLE ''Darwin'' '' +1_0.15.7'' = Inr CATALINA_STYLE \<and>
   SYSTEM_STYLE ''Darwin'' ''abc.1'' = Inl ValueError \<and>
   SYSTEM_STYLE ''Darwin'' ''.6.1'' = Inl ValueError"
proof -
  have 1: "py_int (takeWhile (\<lambda>c. c \<noteq> CHR ''.'') '' +1_0.15.7'') = Some 10"
    by (simp add: py_int_def int_strip_def is_int_space_def py_nat_def is_digit_def
          digit_val_def int_max_str_digits_def)
  have 2: "py_int (takeWhile (\<lambda>c. c \<noteq> CHR ''.'') ''abc.1'') = None"
    by (simp add: py_int_def int_strip_def is_int_space_def py_nat_def is_digit_def)
  show ?thesis
    using platform_selection [of "''FreeBSD''" "''13.0''" 0 "''12''" "''6.1''"]
      platform_selection [of "''Darwin''" "'' +1_0.15.7''" 10 "''12''" "''6.1''"]
      platform_selection [of "''Darwin''" "''abc.1''" 0 "''12''" "''6.1''"]
      1 2
    by (simp add: is_digit_def dec_val_def digit_val_def int_max_str_digits_def)
qed

section \<open>Properties of the stylesheet parsing\<close>

lemmas re_defs = re_match_def is_space_def is_digit_def non_space_def any_char_def number_def
  subpage_pattern_def bgrd_pattern_def groove_pattern_def dim_pattern_def
  qlineargrad_pattern_def qradial_pattern_def

lemmas run_defs = update_styles_from_stylesheet_def find_bar_color_def find_bar_size_def
  splitlines_def is_linebreak_def py_float_def dec_val_def digit_val_def fmt_def

subsection \<open>\<^verbatim>\<open>parse_color\<close>\<close>

text \<open>
  Claim C1 says that a text which is no valid colour and matches neither gradient
  pattern comes back as the fallback \<^verbatim>\<open>"#333"\<close>, and that no exception escapes
  \<open>parse_color\<close>. On exactly these texts the radial match is \<^verbatim>\<open>None\<close> and the
  statement \<^verbatim>\<open>print("match", match.groupdict())\<close> raises \<^verbatim>\<open>AttributeError\<close> before the
  fallback is reached.
\<close>

theorem parse_color_unmatched_raises:
  assumes "\<not> isValid color" and "re_match qlineargrad_pattern color = None"
    and "re_match qradial_pattern color = None"
  shows "parse_color isValid color = Inl AttributeError"
  using assms by (simp add: parse_color_def groupdict_def)

theorem parse_color_unmatched_raises_witness:
  "parse_color hex_color ''garbage'' = Inl AttributeError"
  using parse_color_unmatched_raises [of hex_color "''garbage''"]
  by (simp add: hex_color_def re_defs)

text \<open>The fallback is returned for no input at all: \<open>parse_color\<close> never returns a string.\<close>

lemma two_stops_not_str: "two_stops a b g \<noteq> Inr (PyStr s)"
  by (simp add: two_stops_def QColor_of_def split: option.splits)

lemma parse_color_never_str: "parse_color isValid color \<noteq> Inr (PyStr s)"
  by (auto simp: parse_color_def groupdict_def linear_gradient_def radial_gradient_def
        two_stops_not_str Let_def split: option.splits sum.splits list.splits)

subsection \<open>The extraction scenario\<close>

text \<open>
  Claim C7: on a widget whose collected stylesheet is the scenario text and whose style
  record is all unset, with \<^verbatim>\<open>#ff0000\<close> a valid colour, the extraction finishes without
  an exception and leaves \<open>has_stylesheet\<close> true, the three fill fields equal to the
  colour \<^verbatim>\<open>#ff0000\<close>, and the horizontal thickness 10 (every other field stays unset).
\<close>

theorem extraction_scenario:
  assumes "isValid ''#ff0000''" and "collect_qss obj = scenario_qss"
    and "style obj = unset_style"
  shows "\<exists>obj'. update_styles_from_stylesheet isValid obj = (None, obj') \<and>
     style obj' = unset_style\<lparr>brush_active := PyColor (QColor ''#ff0000'' None),
        brush_inactive := PyColor (QColor ''#ff0000'' None),
        brush_disabled := PyColor (QColor ''#ff0000'' None),
        horizontal_thickness := Some 10, has_stylesheet := True\<rparr>"
  using assms
  by (simp add: run_defs re_defs scenario_qss_def parse_color_def unset_style_def)

theorem extraction_scenario_witness:
  "hex_color ''#ff0000'' \<and> collect_qss (plain_widget scenario_qss) = scenario_qss \<and>
   (\<exists>obj'. update_styles_from_stylesheet hex_color (plain_widget scenario_qss) = (None, obj') \<and>
     style obj' = unset_style\<lparr>brush_active := PyColor (QColor ''#ff0000'' None),
        brush_inactive := PyColor (QColor ''#ff0000'' None),
        brush_disabled := PyColor (QColor ''#ff0000'' None),
        horizontal_thickness := Some 10, has_stylesheet := True\<rparr>)"
proof -
  have 1: "hex_color ''#ff0000''"
    by (simp add: hex_color_def is_hex_digit_def)
  have 2: "collect_qss (plain_widget scenario_qss) = scenario_qss"
    by (simp add: collect_qss_def plain_widget_def)
  have 3: "style (plain_widget scenario_qss) = unset_style"
    by (simp add: plain_widget_def)
  show ?thesis
    using 1 2 extraction_scenario [of hex_color "plain_widget scenario_qss", OF 1 2 3] by simp
qed

subsection \<open>Which declaration wins\<close>

text \<open>
  Claim C3 says that of several heights in a groove block the one written last is stored.
  The loop over the reversed lines has no \<^verbatim>\<open>break\<close>: each line with a height assigns,
  the first written line last, so the height written first is the one that stays.
\<close>

theorem thickness_first_declaration_stays:
  "horizontal_thickness
     (style (snd (update_styles_from_stylesheet isValid (plain_widget two_heights)))) = Some 5"
  by (simp add: run_defs re_defs two_heights_def plain_widget_def collect_qss_def
        unset_style_def)

text \<open>
  In general: a line with a height or width overrides whatever the lines written after
  it have assigned.
\<close>

lemma scan_dim_snoc:
  "scan_dim dimension orient (xs @ [l]) st =
     (case scan_dim dimension orient xs st of
        (None, st') \<Rightarrow> scan_dim dimension orient [l] st'
      | (Some e, st') \<Rightarrow> (Some e, st'))"
  by (induction xs arbitrary: st) (simp_all split: option.splits)

lemma thickness_scan_first_written:
  assumes "\<exists>b. re_search (dim_pattern dimension) line = Some b \<and> b 1 = Some d"
    and "py_float d = Some t"
    and "scan_dim dimension Horizontal (rev after) st = (None, st1)"
  shows "\<exists>st'. scan_dim dimension Horizontal (rev (line # after)) st = (None, st') \<and>
           horizontal_thickness st' = Some t"
  using assms by (auto simp: scan_dim_snoc)

lemma scan_background_skip:
  "\<forall>l \<in> set xs. re_search bgrd_pattern l = None \<Longrightarrow>
     scan_background isValid qss orientation (xs @ ys) obj
       = scan_background isValid qss orientation ys obj"
  by (induction xs) simp_all

lemma set_thickness_brush:
  "brush_active (set_thickness orient t st) = brush_active st \<and>
   brush_inactive (set_thickness orient t st) = brush_inactive st \<and>
   brush_disabled (set_thickness orient t st) = brush_disabled st"
  by (cases orient) simp_all

text \<open>The thickness extraction leaves the fill fields alone.\<close>

lemma scan_dim_brush:
  "scan_dim dimension orient ls st = (e, st') \<Longrightarrow>
     brush_active st' = brush_active st \<and> brush_inactive st' = brush_inactive st \<and>
     brush_disabled st' = brush_disabled st"
proof (induction ls arbitrary: st)
  case Nil
  then show ?case by simp
next
  case (Cons line rest)
  show ?case
  proof (cases "re_search (dim_pattern dimension) line")
    case None
    with Cons show ?thesis by simp
  next
    case (Some b)
    show ?thesis
    proof (cases "b 1")
      case None
      with Some Cons.prems show ?thesis by simp
    next
      case d: (Some d)
      show ?thesis
      proof (cases "py_float d")
        case None
        with Some d Cons.prems show ?thesis by simp
      next
        case t: (Some t)
        from Some d t Cons.prems
        have "scan_dim dimension orient rest
                ((set_thickness orient t st)\<lparr>has_stylesheet := True\<rparr>) = (e, st')"
          by simp
        from Cons.IH [OF this] show ?thesis
          by (simp add: set_thickness_brush)
      qed
    qed
  qed
qed

lemma find_bar_size_brush:
  "find_bar_size orient dimension qss st = (e, st') \<Longrightarrow>
     brush_active st' = brush_active st \<and> brush_inactive st' = brush_inactive st \<and>
     brush_disabled st' = brush_disabled st"
  by (auto simp: find_bar_size_def split: option.splits dest: scan_dim_brush)

text \<open>
  Claim C4: when the body of the matched sub-page block has several background
  declarations on distinct lines, the fill fields get the value of the first one met
  scanning the lines backward, which is the one written last: if \<open>line\<close> declares the
  value \<open>v\<close> and no line after it declares a background, the three fill fields hold
  what \<open>parse_color\<close> makes of \<open>v\<close>, whatever the lines before \<open>line\<close> declare.
\<close>

theorem fill_last_declaration_wins:
  assumes "\<exists>m. re_search subpage_pattern (collect_qss obj) = Some m \<and> m 2 = Some content"
    and "splitlines content = before @ line # after"
    and "\<forall>l \<in> set after. re_search bgrd_pattern l = None"
    and "\<exists>b. re_search bgrd_pattern line = Some b \<and> b 2 = Some v"
    and "parse_color isValid v = Inr color"
  shows "\<exists>e obj'. update_styles_from_stylesheet isValid obj = (e, obj') \<and>
           brush_active (style obj') = color \<and> brush_inactive (style obj') = color \<and>
           brush_disabled (style obj') = color"
proof -
  obtain m where m: "re_search subpage_pattern (collect_qss obj) = Some m" "m 2 = Some content"
    using assms(1) by blast
  obtain b where b: "re_search bgrd_pattern line = Some b" "b 2 = Some v"
    using assms(4) by blast
  define obj0 where "obj0 = obj\<lparr>style := (style obj)\<lparr>has_stylesheet := False\<rparr>\<rparr>"
  have rv: "rev (splitlines content) = rev after @ line # rev before"
    by (simp add: assms(2))
  have sk: "\<forall>l \<in> set (rev after). re_search bgrd_pattern l = None"
    using assms(3) by simp
  obtain obj1 where o1: "find_bar_color isValid (collect_qss obj) obj0 = (None, obj1)"
    and c1: "brush_active (style obj1) = color" "brush_inactive (style obj1) = color"
      "brush_disabled (style obj1) = color"
    by (simp add: find_bar_color_def m rv scan_background_skip [OF sk] b assms(5))
  obtain e1 st1 where
    h: "find_bar_size Horizontal ''height'' (collect_qss obj) (style obj1) = (e1, st1)"
    by (cases "find_bar_size Horizontal ''height'' (collect_qss obj) (style obj1)") auto
  obtain e2 st2 where v: "find_bar_size Vertical ''width'' (collect_qss obj) st1 = (e2, st2)"
    by (cases "find_bar_size Vertical ''width'' (collect_qss obj) st1") auto
  note hb = find_bar_size_brush [OF h]
  note vb = find_bar_size_brush [OF v]
  show ?thesis
  proof (cases e1)
    case None
    then show ?thesis
      using o1 h v hb vb c1
      by (simp add: update_styles_from_stylesheet_def Let_def obj0_def [symmetric])
  next
    case (Some x)
    then show ?thesis
      using o1 h hb c1
      by (simp add: update_styles_from_stylesheet_def Let_def obj0_def [symmetric])
  qed
qed

theorem fill_last_declaration_wins_witness:
  "\<exists>e obj'. update_styles_from_stylesheet hex_color (plain_widget two_backgrounds) = (e, obj') \<and>
     brush_active (style obj') = PyColor (QColor ''#222222'' None) \<and>
     brush_inactive (style obj') = PyColor (QColor ''#222222'' None) \<and>
     brush_disabled (style obj') = PyColor (QColor ''#222222'' None)"
proof -
  have 1: "\<exists>m. re_search subpage_pattern (collect_qss (plain_widget two_backgrounds)) = Some m \<and>
     m 2 = Some ''background: #111111;\<newline>background-color: #222222;\<newline>margin: 2px;\<newline>''"
    by (simp add: re_defs two_backgrounds_def plain_widget_def collect_qss_def)
  have 2: "splitlines ''background: #111111;\<newline>background-color: #222222;\<newline>margin: 2px;\<newline>''
     = [''background: #111111;''] @ ''background-color: #222222;'' # [''margin: 2px;'']"
    by (simp add: splitlines_def is_linebreak_def)
  have 3: "\<forall>l \<in> set [''margin: 2px;'']. re_search bgrd_pattern l = None"
    by (simp add: re_defs)
  have 4: "\<exists>b. re_search bgrd_pattern ''background-color: #222222;'' = Some b \<and>
     b 2 = Some ''#222222''"
    by (simp add: re_defs)
  have 5: "parse_color hex_color ''#222222'' = Inr (PyColor (QColor ''#222222'' None))"
    by (simp add: parse_color_def hex_color_def is_hex_digit_def)
  show ?thesis
    using fill_last_declaration_wins [OF 1 2 3 4 5] .
qed

end
